theory Spec2Isabelle
  imports Main
begin

section \<open>The controlled form of \<open>App.jsx\<close>\<close>

text \<open>
  \<open>App.jsx\<close> is one React function component. Each run of its body (a render) creates
  the object \<open>initialState\<close>, reads the state cell of \<open>useState\<close> into \<open>formState\<close> and
  builds the two handlers \<open>handleSubmit\<close> and \<open>handleChange\<close>, which close over these two
  bindings. The handlers create objects and call \<open>setFormState\<close>, \<open>e.preventDefault\<close> and
  \<open>console.log\<close>.

  The model keeps what the handlers can observe or change: a store of objects addressed by
  references (object identity matters to React, which compares states with \<open>Object.is\<close>),
  the state cell of the hook, and the sequence of calls made to the environment.
\<close>

subsection \<open>Objects and references\<close>

text \<open>
  A JavaScript object whose properties are strings: a finite mapping from property name to
  value. Every value the form stores comes from \<open>e.target.value\<close> or from the literal
  \<open>''\<close>, so values are strings; property names come from \<open>e.target.id\<close>, a string as well.
  The enumeration order of the properties is not modelled.
\<close>

type_synonym js_object = "string \<rightharpoonup> string"

type_synonym ref = nat

subsection \<open>Events, the store and the environment\<close>

text \<open>
  What the handlers read of an event: \<open>e.target.id\<close> and \<open>e.target.value\<close>. A submit event
  carries a target as well; \<open>handleSubmit\<close> does not read it.
\<close>

record event =
  target_id :: string
  target_value :: string

text \<open>
  The calls a handler makes to its environment, in the order they happen:
  \<open>e.preventDefault()\<close> on an event, \<open>console.log\<close> of an object (with the contents it
  has at that moment) and \<open>setFormState\<close> of a reference.
\<close>

datatype effect =
    PreventDefault event
  | ConsoleLog js_object
  | SetFormState ref

text \<open>
  \<open>heap\<close> holds the objects, \<open>next_ref\<close> is the first address not yet given out,
  \<open>hook\<close> is the state cell of the one \<open>useState\<close> call (\<open>None\<close> until the component has
  rendered once) and \<open>trace\<close> records the calls to the environment.
\<close>

record world =
  heap :: "ref \<Rightarrow> js_object"
  next_ref :: ref
  hook :: "ref option"
  trace :: "effect list"

text \<open>An object literal evaluates to a new object: it takes the next free address.\<close>

definition alloc :: "js_object \<Rightarrow> world \<Rightarrow> ref \<times> world" where
  "alloc obj w =
     (next_ref w, w\<lparr>heap := (heap w)(next_ref w := obj), next_ref := Suc (next_ref w)\<rparr>)"

text \<open>
  The two parts of the literal \<open>{...formState, [e.target.id]: e.target.value}\<close>:
  \<open>spread\<close> copies the own properties of the source into the object under construction,
  \<open>define_property\<close> then creates or overwrites the property with the computed name.
\<close>

definition spread :: "js_object \<Rightarrow> js_object \<Rightarrow> js_object" where
  "spread src obj = obj ++ src"

definition define_property :: "string \<Rightarrow> string \<Rightarrow> js_object \<Rightarrow> js_object" where
  "define_property k v obj = obj(k \<mapsto> v)"

definition preventDefault :: "event \<Rightarrow> world \<Rightarrow> world" where
  "preventDefault e w = w\<lparr>trace := trace w @ [PreventDefault e]\<rparr>"

text \<open>\<open>console.log\<close> is the sink: it receives the object as it is at the time of the call.\<close>

definition console_log :: "ref \<Rightarrow> world \<Rightarrow> world" where
  "console_log r w = w\<lparr>trace := trace w @ [ConsoleLog (heap w r)]\<rparr>"

text \<open>
  React's hook. \<open>useState\<close> returns the cell's content, taking its argument only when the
  cell is still empty (the first render). \<open>setFormState\<close> replaces the cell's content; the
  component renders again once the handler has returned (see \<open>dispatch\<close>).
\<close>

definition useState :: "ref \<Rightarrow> world \<Rightarrow> ref \<times> world" where
  "useState init w =
     (case hook w of
        None \<Rightarrow> (init, w\<lparr>hook := Some init\<rparr>)
      | Some r \<Rightarrow> (r, w))"

definition setFormState :: "ref \<Rightarrow> world \<Rightarrow> world" where
  "setFormState r w = w\<lparr>hook := Some r, trace := trace w @ [SetFormState r]\<rparr>"

subsection \<open>The component\<close>

text \<open>The constants of one render, which the handlers of that render close over.\<close>

record bindings =
  initialState :: ref
  formState :: ref

text \<open>The literal of lines 5 to 9.\<close>

definition initialState_literal :: js_object where
  "initialState_literal =
     [''issueType'' \<mapsto> '''', ''subject'' \<mapsto> '''', ''message'' \<mapsto> '''']"

text \<open>
  The body of \<open>App\<close> up to the handlers: \<open>const initialState = {...}\<close>, then
  \<open>const [formState, setFormState] = useState(initialState)\<close>.
\<close>

definition App :: "world \<Rightarrow> bindings \<times> world" where
  "App w =
     (let (i, w1) = alloc initialState_literal w;
          (f, w2) = useState i w1
      in (\<lparr>initialState = i, formState = f\<rparr>, w2))"

text \<open>
  \<open>handleSubmit\<close>: \<open>e.preventDefault()\<close>, \<open>console.log(formState)\<close>,
  \<open>setFormState(initialState)\<close>.
\<close>

definition handleSubmit :: "bindings \<Rightarrow> event \<Rightarrow> world \<Rightarrow> world" where
  "handleSubmit b e w =
     (let w1 = preventDefault e w;
          w2 = console_log (formState b) w1
      in setFormState (initialState b) w2)"

text \<open>\<open>handleChange\<close>: \<open>setFormState({...formState, [e.target.id]: e.target.value})\<close>.\<close>

definition handleChange :: "bindings \<Rightarrow> event \<Rightarrow> world \<Rightarrow> world" where
  "handleChange b e w =
     (let obj = define_property (target_id e) (target_value e)
                  (spread (heap w (formState b)) Map.empty);
          (r, w1) = alloc obj w
      in setFormState r w1)"

text \<open>
  The returned form binds \<open>handleSubmit\<close> to \<open>onSubmit\<close> of the form and \<open>handleChange\<close>
  to \<open>onChange\<close> of three elements, whose \<open>id\<close> attributes are these (lines 26, 34 and 37);
  each element shows the entry of \<open>formState\<close> under its \<open>id\<close>.
\<close>

definition field_ids :: "string list" where
  "field_ids = [''issueType'', ''subject'', ''message'']"

subsection \<open>Rendering and events\<close>

text \<open>
  A mounted component is the bindings of its latest render together with the world. The
  form raises two kinds of events: \<open>onChange\<close> of one of the three fields and \<open>onSubmit\<close>
  of the form. React runs the handler of the latest render to completion and then renders
  the component again, so the next handler closes over the new state. (When the new state
  is the very object the cell already held, React may skip that render; the bindings it
  would produce hold the same objects' contents, and the model renders in every case.)
\<close>

type_synonym component = "bindings \<times> world"

datatype signal = Change event | Submit event

definition handler :: "bindings \<Rightarrow> signal \<Rightarrow> world \<Rightarrow> world" where
  "handler b s w =
     (case s of
        Change e \<Rightarrow> handleChange b e w
      | Submit e \<Rightarrow> handleSubmit b e w)"

definition dispatch :: "signal \<Rightarrow> component \<Rightarrow> component" where
  "dispatch s c = App (handler (fst c) s (snd c))"

definition empty_world :: world where
  "empty_world = \<lparr>heap = (\<lambda>r. Map.empty), next_ref = 0, hook = None, trace = []\<rparr>"

definition mount :: component where
  "mount = App empty_world"

definition run :: "signal list \<Rightarrow> component \<Rightarrow> component" where
  "run ss c = fold dispatch ss c"

text \<open>
  The observable FormState of a component is the object its \<open>formState\<close> binding refers
  to (the fields display its entries); InitialState is the object of \<open>initialState\<close>.
\<close>

definition FormState :: "component \<Rightarrow> js_object" where
  "FormState c = heap (snd c) (formState (fst c))"

definition InitialState :: "component \<Rightarrow> js_object" where
  "InitialState c = heap (snd c) (initialState (fst c))"

text \<open>The calls made to the environment between two worlds, and what the sink received.\<close>

definition effects_between :: "component \<Rightarrow> component \<Rightarrow> effect list" where
  "effects_between c c' = drop (length (trace (snd c))) (trace (snd c'))"

definition logged :: "effect list \<Rightarrow> js_object list" where
  "logged xs =
     concat (map (\<lambda>x. case x of ConsoleLog obj \<Rightarrow> [obj] | _ \<Rightarrow> []) xs)"

definition calls_preventDefault :: "effect list \<Rightarrow> nat" where
  "calls_preventDefault xs =
     length (filter (\<lambda>x. case x of PreventDefault e \<Rightarrow> True | _ \<Rightarrow> False) xs)"

text \<open>
  A reference in use has been given out by \<open>alloc\<close>. This holds after mounting and after
  every event (lemmas \<open>in_use_allocated_mount\<close> and \<open>in_use_allocated_dispatch\<close>).
\<close>

definition in_use_allocated :: "component \<Rightarrow> bool" where
  "in_use_allocated c \<longleftrightarrow>
     formState (fst c) < next_ref (snd c) \<and> initialState (fst c) < next_ref (snd c)"

subsection \<open>A hand-off that may fail\<close>







section \<open>Basic facts\<close>

lemma field_ids_are_keys: "set field_ids = dom initialState_literal"
  by (simp add: field_ids_def initialState_literal_def insert_commute)

lemma FormState_App:
  "FormState (App w) =
     (case hook w of None \<Rightarrow> initialState_literal
      | Some r \<Rightarrow> if r = next_ref w then initialState_literal else heap w r)"
  by (simp add: FormState_def App_def alloc_def useState_def split: option.splits)

lemma InitialState_App: "InitialState (App w) = initialState_literal"
  by (simp add: InitialState_def App_def alloc_def useState_def split: option.splits)

lemma hook_handleChange: "hook (handleChange b e w) = Some (next_ref w)"
  by (simp add: handleChange_def alloc_def setFormState_def)

lemma next_ref_handleChange: "next_ref (handleChange b e w) = Suc (next_ref w)"
  by (simp add: handleChange_def alloc_def setFormState_def)

lemma heap_handleChange:
  "heap (handleChange b e w) =
     (heap w)(next_ref w := (heap w (formState b))(target_id e \<mapsto> target_value e))"
  by (simp add: handleChange_def alloc_def setFormState_def spread_def define_property_def)

lemma trace_handleChange:
  "trace (handleChange b e w) = trace w @ [SetFormState (next_ref w)]"
  by (simp add: handleChange_def alloc_def setFormState_def)

lemma hook_handleSubmit: "hook (handleSubmit b e w) = Some (initialState b)"
  by (simp add: handleSubmit_def setFormState_def Let_def)

lemma next_ref_handleSubmit: "next_ref (handleSubmit b e w) = next_ref w"
  by (simp add: handleSubmit_def setFormState_def console_log_def preventDefault_def Let_def)

lemma heap_handleSubmit: "heap (handleSubmit b e w) = heap w"
  by (simp add: handleSubmit_def setFormState_def console_log_def preventDefault_def Let_def)

lemma trace_handleSubmit:
  "trace (handleSubmit b e w) =
     trace w @ [PreventDefault e, ConsoleLog (heap w (formState b)), SetFormState (initialState b)]"
  by (simp add: handleSubmit_def setFormState_def console_log_def preventDefault_def Let_def)

lemma trace_App: "trace (snd (App w)) = trace w"
  by (simp add: App_def alloc_def useState_def split: option.splits)

lemma FormState_Change:
  "FormState (dispatch (Change e) c) = (FormState c)(target_id e \<mapsto> target_value e)"
proof -
  have "FormState (dispatch (Change e) c) =
          heap (handleChange (fst c) e (snd c)) (next_ref (snd c))"
    by (simp add: dispatch_def handler_def FormState_App hook_handleChange
        next_ref_handleChange)
  then show ?thesis
    by (simp add: heap_handleChange FormState_def)
qed

lemma next_ref_App: "next_ref (snd (App w)) = Suc (next_ref w)"
  by (simp add: App_def alloc_def useState_def split: option.splits)

lemma initialState_App: "initialState (fst (App w)) = next_ref w"
  by (simp add: App_def alloc_def useState_def split: option.splits)

lemma formState_App:
  "formState (fst (App w)) = (case hook w of None \<Rightarrow> next_ref w | Some r \<Rightarrow> r)"
  by (simp add: App_def alloc_def useState_def split: option.splits)

lemma heap_App: "heap (snd (App w)) = (heap w)(next_ref w := initialState_literal)"
  by (simp add: App_def alloc_def useState_def split: option.splits)

lemma FormState_Submit:
  "FormState (dispatch (Submit e) (App w)) = initialState_literal"
proof -
  let ?w' = "handleSubmit (fst (App w)) e (snd (App w))"
  have "hook ?w' = Some (next_ref w)"
    by (simp add: hook_handleSubmit initialState_App)
  moreover have "next_ref ?w' = Suc (next_ref w)"
    by (simp add: next_ref_handleSubmit next_ref_App)
  moreover have "heap ?w' (next_ref w) = initialState_literal"
    by (simp add: heap_handleSubmit heap_App)
  ultimately show ?thesis
    by (simp add: dispatch_def handler_def FormState_App)
qed

lemma InitialState_dispatch: "InitialState (dispatch s c) = initialState_literal"
  by (simp add: dispatch_def InitialState_App)

lemma FormState_mount: "FormState mount = initialState_literal"
  by (simp add: mount_def FormState_App empty_world_def)

lemma InitialState_mount: "InitialState mount = initialState_literal"
  by (simp add: mount_def InitialState_App)

lemma trace_Submit:
  "trace (snd (dispatch (Submit e) c)) =
     trace (snd c) @
       [PreventDefault e, ConsoleLog (FormState c), SetFormState (initialState (fst c))]"
  by (simp add: dispatch_def handler_def trace_App trace_handleSubmit FormState_def)

lemma effects_Submit:
  "effects_between c (dispatch (Submit e) c) =
     [PreventDefault e, ConsoleLog (FormState c), SetFormState (initialState (fst c))]"
  by (simp add: effects_between_def trace_Submit)

lemma run_Nil: "run [] c = c"
  by (simp add: run_def)

lemma run_Cons: "run (s # ss) c = run ss (dispatch s c)"
  by (simp add: run_def)

lemma run_snoc: "run (ss @ [s]) c = dispatch s (run ss c)"
  by (simp add: run_def)

lemma dom_FormState_edits:
  "\<forall>e\<in>set es. target_id e \<in> dom (FormState c) \<Longrightarrow>
     dom (FormState (run (map Change es) c)) = dom (FormState c)"
proof (induction es arbitrary: c)
  case Nil
  show ?case by (simp add: run_Nil)
next
  case (Cons e es)
  have d: "dom (FormState (dispatch (Change e) c)) = dom (FormState c)"
    using Cons.prems by (auto simp: FormState_Change)
  from Cons.prems have "\<forall>x\<in>set es. target_id x \<in> dom (FormState (dispatch (Change e) c))"
    by (simp add: d)
  from Cons.IH [OF this] show ?case
    by (simp add: run_Cons d)
qed

lemma InitialState_run: "InitialState (run ss (App w)) = initialState_literal"
proof (cases ss rule: rev_cases)
  case Nil
  then show ?thesis by (simp add: run_Nil InitialState_App)
next
  case (snoc ys y)
  then show ?thesis by (simp add: run_snoc InitialState_dispatch)
qed

lemma in_use_allocated_mount: "in_use_allocated mount"
  by (simp add: in_use_allocated_def mount_def empty_world_def formState_App
      initialState_App next_ref_App)

lemma in_use_allocated_dispatch:
  assumes "in_use_allocated c"
  shows "in_use_allocated (dispatch s c)"
proof (cases s)
  case (Change e)
  then show ?thesis
    by (simp add: in_use_allocated_def dispatch_def handler_def formState_App
        initialState_App next_ref_App hook_handleChange next_ref_handleChange)
next
  case (Submit e)
  with assms show ?thesis
    by (simp add: in_use_allocated_def dispatch_def handler_def formState_App
        initialState_App next_ref_App hook_handleSubmit next_ref_handleSubmit)
qed

lemma in_use_allocated_run: "in_use_allocated c \<Longrightarrow> in_use_allocated (run ss c)"
  by (induction ss arbitrary: c) (simp_all add: run_Nil run_Cons in_use_allocated_dispatch)

lemma FormState_any:
  "FormState (App \<lparr>heap = (\<lambda>r. obj), next_ref = 1, hook = Some 0, trace = []\<rparr>) = obj"
  by (simp add: FormState_App)

lemma heap_Change:
  "heap (snd (dispatch (Change e) c)) =
     (heap (handleChange (fst c) e (snd c)))(Suc (next_ref (snd c)) := initialState_literal)"
  by (simp add: dispatch_def handler_def heap_App next_ref_handleChange)

lemma formState_Change: "formState (fst (dispatch (Change e) c)) = next_ref (snd c)"
  by (simp add: dispatch_def handler_def formState_App hook_handleChange)






section \<open>The properties of the specification\<close>

text \<open>
  Claim C1. Take a component whose FormState has the keys of InitialState, and a change
  event whose \<open>e.target.id\<close> is one of these keys. After the event the FormState holds
  \<open>e.target.value\<close> at that key, every other entry is what it was before the event, and
  the key set is the same: no key was added or removed.
\<close>

theorem handleChange_replaces_entry:
  assumes "dom (FormState c) = dom (InitialState c)"
    and "target_id e \<in> dom (InitialState c)"
  shows "FormState (dispatch (Change e) c) (target_id e) = Some (target_value e) \<and>
         (\<forall>j. j \<noteq> target_id e \<longrightarrow>
              FormState (dispatch (Change e) c) j = FormState c j) \<and>
         dom (FormState (dispatch (Change e) c)) = dom (FormState c)"
proof -
  from assms have "target_id e \<in> dom (FormState c)"
    by simp
  then have "insert (target_id e) (dom (FormState c)) = dom (FormState c)"
    by (rule insert_absorb)
  then show ?thesis
    by (simp add: FormState_Change)
qed

theorem handleChange_replaces_entry_witness:
  "dom (FormState mount) = dom (InitialState mount) \<and>
   ''subject'' \<in> dom (InitialState mount) \<and>
   FormState (dispatch (Change \<lparr>target_id = ''subject'', target_value = ''Hi''\<rparr>) mount)
     ''subject'' = Some ''Hi'' \<and>
   FormState (dispatch (Change \<lparr>target_id = ''subject'', target_value = ''Hi''\<rparr>) mount)
     ''message'' = Some '''' \<and>
   dom (FormState (dispatch (Change \<lparr>target_id = ''subject'', target_value = ''Hi''\<rparr>) mount)) =
     {''issueType'', ''subject'', ''message''}"
proof -
  let ?e = "\<lparr>target_id = ''subject'', target_value = ''Hi''\<rparr>"
  have h1: "dom (FormState mount) = dom (InitialState mount)"
    by (simp add: FormState_mount InitialState_mount)
  have h2: "target_id ?e \<in> dom (InitialState mount)"
    by (simp add: InitialState_mount initialState_literal_def)
  note t = handleChange_replaces_entry [OF h1 h2]
  from t have a: "FormState (dispatch (Change ?e) mount) ''subject'' = Some ''Hi''"
    by simp
  from t have "FormState (dispatch (Change ?e) mount) ''message'' = FormState mount ''message''"
    by simp
  then have b: "FormState (dispatch (Change ?e) mount) ''message'' = Some ''''"
    by (simp add: FormState_mount initialState_literal_def)
  from t have "dom (FormState (dispatch (Change ?e) mount)) = dom (FormState mount)"
    by simp
  then have c: "dom (FormState (dispatch (Change ?e) mount)) =
      {''issueType'', ''subject'', ''message''}"
    by (simp add: FormState_mount initialState_literal_def insert_commute)
  from h2 have h2': "''subject'' \<in> dom (InitialState mount)"
    by simp
  show ?thesis
    using h1 h2' a b c by blast
qed

text \<open>
  Claim C2. Start from the mounted component and let any sequence of change events arrive,
  each targeting one of the keys of InitialState. After each of them (after the first \<open>n\<close>
  events, for every \<open>n\<close> up to the length of the sequence) the key set of the FormState is
  the key set of InitialState, which itself has not changed.
\<close>

theorem key_set_invariant:
  assumes "\<forall>e\<in>set es. target_id e \<in> dom (InitialState mount)"
    and "n \<le> length es"
  shows "dom (FormState (run (map Change (take n es)) mount)) = dom (InitialState mount) \<and>
         dom (InitialState (run (map Change (take n es)) mount)) = dom (InitialState mount)"
proof -
  have "\<forall>e\<in>set (take n es). target_id e \<in> dom (FormState mount)"
    using assms(1) by (auto simp: FormState_mount InitialState_mount dest: in_set_takeD)
  then have "dom (FormState (run (map Change (take n es)) mount)) = dom (FormState mount)"
    by (rule dom_FormState_edits)
  moreover have "InitialState (run (map Change (take n es)) mount) = initialState_literal"
    unfolding mount_def by (rule InitialState_run)
  ultimately show ?thesis
    by (simp add: FormState_mount InitialState_mount)
qed

theorem key_set_invariant_witness:
  "target_id \<lparr>target_id = ''issueType'', target_value = ''billing''\<rparr>
     \<in> dom (InitialState mount) \<and>
   target_id \<lparr>target_id = ''message'', target_value = ''Hello''\<rparr>
     \<in> dom (InitialState mount) \<and>
   (1::nat) \<le> length [\<lparr>target_id = ''issueType'', target_value = ''billing''\<rparr>,
                  \<lparr>target_id = ''message'', target_value = ''Hello''\<rparr>] \<and>
   dom (FormState (run [Change \<lparr>target_id = ''issueType'', target_value = ''billing''\<rparr>] mount)) =
     {''issueType'', ''subject'', ''message''} \<and>
   dom (FormState (run [Change \<lparr>target_id = ''issueType'', target_value = ''billing''\<rparr>,
                        Change \<lparr>target_id = ''message'', target_value = ''Hello''\<rparr>] mount)) =
     {''issueType'', ''subject'', ''message''}"
proof -
  let ?e1 = "\<lparr>target_id = ''issueType'', target_value = ''billing''\<rparr>"
  let ?e2 = "\<lparr>target_id = ''message'', target_value = ''Hello''\<rparr>"
  have k: "dom (InitialState mount) = {''issueType'', ''subject'', ''message''}"
    by (simp add: InitialState_mount initialState_literal_def insert_commute)
  have h: "\<forall>e\<in>set [?e1, ?e2]. target_id e \<in> dom (InitialState mount)"
    by (simp add: k)
  have n1: "(1::nat) \<le> length [?e1, ?e2]" and n2: "(2::nat) \<le> length [?e1, ?e2]"
    by simp_all
  from key_set_invariant [OF h n1]
  have a: "dom (FormState (run [Change ?e1] mount)) = {''issueType'', ''subject'', ''message''}"
    by (simp add: k)
  from key_set_invariant [OF h n2]
  have b: "dom (FormState (run [Change ?e1, Change ?e2] mount)) =
      {''issueType'', ''subject'', ''message''}"
    by (simp add: k)
  from h have h1: "target_id ?e1 \<in> dom (InitialState mount)"
    and h2: "target_id ?e2 \<in> dom (InitialState mount)"
    by simp_all
  show ?thesis
    using h1 h2 n1 a b by blast
qed




text \<open>
  Claim C4. The calls \<open>handleSubmit\<close> makes are, in this order: \<open>preventDefault\<close>, once and
  before everything else; \<open>console.log\<close> with the FormState as it was before the
  submission; \<open>setFormState\<close> with \<open>initialState\<close>, after which the state cell holds
  \<open>initialState\<close> and the FormState of the next render is InitialState. Nothing already in
  the trace is changed.
\<close>

theorem handleSubmit_order:
  "effects_between (App w) (dispatch (Submit e) (App w)) =
     [PreventDefault e, ConsoleLog (FormState (App w)),
      SetFormState (initialState (fst (App w)))] \<and>
   trace (snd (dispatch (Submit e) (App w))) =
     trace (snd (App w)) @ effects_between (App w) (dispatch (Submit e) (App w)) \<and>
   calls_preventDefault (effects_between (App w) (dispatch (Submit e) (App w))) = 1 \<and>
   hook (handleSubmit (fst (App w)) e (snd (App w))) = Some (initialState (fst (App w))) \<and>
   FormState (dispatch (Submit e) (App w)) = InitialState (App w)"
  by (simp add: effects_Submit trace_Submit calls_preventDefault_def hook_handleSubmit
      FormState_Submit InitialState_App)

text \<open>
  Claim C5. Two submissions in a row, with no change event between them: the FormState
  after the second is the FormState after the first, and both are InitialState.
\<close>

theorem handleSubmit_idempotent:
  "FormState (dispatch (Submit e2) (dispatch (Submit e1) (App w))) =
     FormState (dispatch (Submit e1) (App w)) \<and>
   FormState (dispatch (Submit e2) (dispatch (Submit e1) (App w))) = InitialState (App w)"
proof -
  have "dispatch (Submit e1) (App w) = App (handler (fst (App w)) (Submit e1) (snd (App w)))"
    by (simp add: dispatch_def)
  then have "FormState (dispatch (Submit e2) (dispatch (Submit e1) (App w))) =
      initialState_literal"
    by (simp add: FormState_Submit)
  then show ?thesis
    by (simp add: FormState_Submit InitialState_App)
qed

text \<open>
  Claim C6. \<open>handleChange\<close> does not write into the previous FormState. In a component whose
  references have been given out by \<open>alloc\<close> (every component reached from \<open>mount\<close>, see
  \<open>in_use_allocated_run\<close>), a change event leaves every object that existed before the
  event as it was, in particular the object \<open>formState\<close> referred to, both when the handler
  returns and after the following render; and the new \<open>formState\<close> is another reference
  than the previous one.
\<close>

theorem handleChange_does_not_mutate:
  assumes "in_use_allocated c"
  shows "(\<forall>r. r < next_ref (snd c) \<longrightarrow>
              heap (handleChange (fst c) e (snd c)) r = heap (snd c) r \<and>
              heap (snd (dispatch (Change e) c)) r = heap (snd c) r) \<and>
         heap (handleChange (fst c) e (snd c)) (formState (fst c)) = FormState c \<and>
         heap (snd (dispatch (Change e) c)) (formState (fst c)) = FormState c \<and>
         formState (fst (dispatch (Change e) c)) \<noteq> formState (fst c)"
proof -
  from assms have lt: "formState (fst c) < next_ref (snd c)"
    by (simp add: in_use_allocated_def)
  have old: "heap (handleChange (fst c) e (snd c)) r = heap (snd c) r \<and>
      heap (snd (dispatch (Change e) c)) r = heap (snd c) r"
    if "r < next_ref (snd c)" for r
    using that by (simp add: heap_Change heap_handleChange)
  from old [OF lt] have "heap (handleChange (fst c) e (snd c)) (formState (fst c)) = FormState c"
    and "heap (snd (dispatch (Change e) c)) (formState (fst c)) = FormState c"
    by (simp_all add: FormState_def)
  moreover from lt have "formState (fst (dispatch (Change e) c)) \<noteq> formState (fst c)"
    by (simp add: formState_Change)
  ultimately show ?thesis
    using old by blast
qed

theorem handleChange_does_not_mutate_witness:
  "in_use_allocated mount \<and>
   heap (snd (dispatch (Change \<lparr>target_id = ''subject'', target_value = ''Hi''\<rparr>) mount))
     (formState (fst mount)) = initialState_literal \<and>
   FormState (dispatch (Change \<lparr>target_id = ''subject'', target_value = ''Hi''\<rparr>) mount)
     ''subject'' = Some ''Hi'' \<and>
   formState (fst (dispatch (Change \<lparr>target_id = ''subject'', target_value = ''Hi''\<rparr>) mount))
     \<noteq> formState (fst mount)"
proof -
  let ?e = "\<lparr>target_id = ''subject'', target_value = ''Hi''\<rparr>"
  note t = handleChange_does_not_mutate [OF in_use_allocated_mount, of ?e]
  from t have a: "heap (snd (dispatch (Change ?e) mount)) (formState (fst mount)) =
      initialState_literal"
    by (simp add: FormState_mount)
  from t have b: "formState (fst (dispatch (Change ?e) mount)) \<noteq> formState (fst mount)"
    by simp
  have c: "FormState (dispatch (Change ?e) mount) ''subject'' = Some ''Hi''"
    by (simp add: FormState_Change)
  show ?thesis
    using in_use_allocated_mount a b c by blast
qed

text \<open>
  Claim C7. The example scenario, from the mounted component: InitialState and the first
  FormState are the literal with three empty entries; editing \<open>issueType\<close> to \<open>billing\<close> and
  then \<open>subject\<close> to \<open>Invoice error\<close> gives the two states of the scenario; on submit the
  sink receives exactly the state with both edits, and the FormState is again the literal.
\<close>

theorem example_scenario:
  "InitialState mount = [''issueType'' \<mapsto> '''', ''subject'' \<mapsto> '''', ''message'' \<mapsto> ''''] \<and>
   FormState mount = [''issueType'' \<mapsto> '''', ''subject'' \<mapsto> '''', ''message'' \<mapsto> ''''] \<and>
   FormState (run [Change \<lparr>target_id = ''issueType'', target_value = ''billing''\<rparr>] mount) =
     [''issueType'' \<mapsto> ''billing'', ''subject'' \<mapsto> '''', ''message'' \<mapsto> ''''] \<and>
   FormState (run [Change \<lparr>target_id = ''issueType'', target_value = ''billing''\<rparr>,
                   Change \<lparr>target_id = ''subject'', target_value = ''Invoice error''\<rparr>] mount) =
     [''issueType'' \<mapsto> ''billing'', ''subject'' \<mapsto> ''Invoice error'', ''message'' \<mapsto> ''''] \<and>
   logged (effects_between
       (run [Change \<lparr>target_id = ''issueType'', target_value = ''billing''\<rparr>,
             Change \<lparr>target_id = ''subject'', target_value = ''Invoice error''\<rparr>] mount)
       (run [Change \<lparr>target_id = ''issueType'', target_value = ''billing''\<rparr>,
             Change \<lparr>target_id = ''subject'', target_value = ''Invoice error''\<rparr>,
             Submit e] mount)) =
     [[''issueType'' \<mapsto> ''billing'', ''subject'' \<mapsto> ''Invoice error'', ''message'' \<mapsto> '''']] \<and>
   FormState (run [Change \<lparr>target_id = ''issueType'', target_value = ''billing''\<rparr>,
                   Change \<lparr>target_id = ''subject'', target_value = ''Invoice error''\<rparr>,
                   Submit e] mount) =
     [''issueType'' \<mapsto> '''', ''subject'' \<mapsto> '''', ''message'' \<mapsto> '''']"
proof -
  let ?e1 = "\<lparr>target_id = ''issueType'', target_value = ''billing''\<rparr>"
  let ?e2 = "\<lparr>target_id = ''subject'', target_value = ''Invoice error''\<rparr>"
  let ?s0 = "[''issueType'' \<mapsto> '''', ''subject'' \<mapsto> '''', ''message'' \<mapsto> '''']"
  let ?s1 = "[''issueType'' \<mapsto> ''billing'', ''subject'' \<mapsto> '''', ''message'' \<mapsto> '''']"
  let ?s2 = "[''issueType'' \<mapsto> ''billing'', ''subject'' \<mapsto> ''Invoice error'',
              ''message'' \<mapsto> '''']"
  have i: "InitialState mount = ?s0"
    by (simp add: InitialState_mount initialState_literal_def)
  have a: "FormState mount = ?s0"
    by (simp add: FormState_mount initialState_literal_def)
  have "?s0(''issueType'' \<mapsto> ''billing'') = ?s1"
    by (rule ext) simp
  then have b: "FormState (run [Change ?e1] mount) = ?s1"
    by (simp add: run_Cons run_Nil FormState_Change a)
  have "?s1(''subject'' \<mapsto> ''Invoice error'') = ?s2"
    by (rule ext) simp
  with b have c: "FormState (run [Change ?e1, Change ?e2] mount) = ?s2"
    by (simp add: run_Cons run_Nil FormState_Change)
  have r: "run [Change ?e1, Change ?e2, Submit e] mount =
      dispatch (Submit e) (run [Change ?e1, Change ?e2] mount)"
    by (simp add: run_Cons run_Nil)
  have d: "logged (effects_between (run [Change ?e1, Change ?e2] mount)
      (run [Change ?e1, Change ?e2, Submit e] mount)) = [?s2]"
    unfolding r effects_Submit c by (simp add: logged_def)
  have "run [Change ?e1, Change ?e2] mount =
      App (handler (fst (dispatch (Change ?e1) mount)) (Change ?e2)
        (snd (dispatch (Change ?e1) mount)))"
    by (simp add: run_Cons run_Nil dispatch_def)
  then have f: "FormState (run [Change ?e1, Change ?e2, Submit e] mount) = ?s0"
    unfolding r by (simp add: FormState_Submit initialState_literal_def)
  show ?thesis
    using i a b c d f by blast
qed

text \<open>
  Claim C8, in the form that holds of the code. A change event whose \<open>e.target.id\<close> is not a key of InitialState
  is handled like any other (the handler has no failing branch and does not skip the
  update): the new key set is the previous one with the identifier added, the entry under
  the identifier is \<open>e.target.value\<close>, and the entry under every other key is what it was.
  When the identifier was not a key of the previous FormState either, the FormState has
  changed and all of its previous entries are unchanged.
\<close>

theorem handleChange_unknown_key:
  assumes "target_id e \<notin> dom (InitialState c)"
  shows "dom (FormState (dispatch (Change e) c)) = insert (target_id e) (dom (FormState c)) \<and>
         FormState (dispatch (Change e) c) (target_id e) = Some (target_value e) \<and>
         (\<forall>j. j \<noteq> target_id e \<longrightarrow>
              FormState (dispatch (Change e) c) j = FormState c j) \<and>
         (target_id e \<notin> dom (FormState c) \<longrightarrow>
            FormState (dispatch (Change e) c) \<noteq> FormState c \<and>
            (\<forall>j\<in>dom (FormState c). FormState (dispatch (Change e) c) j = FormState c j))"
proof -
  have "FormState (dispatch (Change e) c) \<noteq> FormState c"
    if "target_id e \<notin> dom (FormState c)"
  proof
    assume "FormState (dispatch (Change e) c) = FormState c"
    then have "FormState (dispatch (Change e) c) (target_id e) = FormState c (target_id e)"
      by simp
    then have "FormState c (target_id e) = Some (target_value e)"
      by (simp add: FormState_Change)
    with that show False
      by (simp add: dom_def)
  qed
  moreover have "\<forall>j\<in>dom (FormState c). FormState (dispatch (Change e) c) j = FormState c j"
    if "target_id e \<notin> dom (FormState c)"
    using that by (auto simp: FormState_Change)
  ultimately show ?thesis
    by (simp add: FormState_Change)
qed

theorem handleChange_unknown_key_witness:
  "''nickname'' \<notin> dom (InitialState mount) \<and>
   dom (FormState (dispatch (Change \<lparr>target_id = ''nickname'', target_value = ''B''\<rparr>) mount)) =
     {''nickname'', ''issueType'', ''subject'', ''message''} \<and>
   FormState (dispatch (Change \<lparr>target_id = ''nickname'', target_value = ''B''\<rparr>) mount)
     ''nickname'' = Some ''B'' \<and>
   FormState (dispatch (Change \<lparr>target_id = ''nickname'', target_value = ''B''\<rparr>) mount)
     ''subject'' = Some '''' \<and>
   FormState (dispatch (Change \<lparr>target_id = ''nickname'', target_value = ''B''\<rparr>) mount) \<noteq>
     FormState mount \<and>
   ''nickname'' \<notin> dom (InitialState
       (dispatch (Change \<lparr>target_id = ''nickname'', target_value = ''B''\<rparr>) mount)) \<and>
   dom (FormState (dispatch (Change \<lparr>target_id = ''nickname'', target_value = ''Bo''\<rparr>)
       (dispatch (Change \<lparr>target_id = ''nickname'', target_value = ''B''\<rparr>) mount))) =
     {''nickname'', ''issueType'', ''subject'', ''message''} \<and>
   FormState (dispatch (Change \<lparr>target_id = ''nickname'', target_value = ''Bo''\<rparr>)
       (dispatch (Change \<lparr>target_id = ''nickname'', target_value = ''B''\<rparr>) mount))
     ''nickname'' = Some ''Bo'' \<and>
   FormState (dispatch (Change \<lparr>target_id = ''nickname'', target_value = ''Bo''\<rparr>)
       (dispatch (Change \<lparr>target_id = ''nickname'', target_value = ''B''\<rparr>) mount))
     ''subject'' = Some ''''"
proof -
  let ?e = "\<lparr>target_id = ''nickname'', target_value = ''B''\<rparr>"
  let ?bo = "\<lparr>target_id = ''nickname'', target_value = ''Bo''\<rparr>"
  let ?c1 = "dispatch (Change ?e) mount"
  have k: "dom initialState_literal = {''issueType'', ''subject'', ''message''}"
    by (simp add: initialState_literal_def insert_commute)
  have h: "target_id ?e \<notin> dom (InitialState mount)"
    by (simp add: InitialState_mount k)
  have h': "target_id ?e \<notin> dom (FormState mount)"
    by (simp add: FormState_mount k)
  note t = handleChange_unknown_key [OF h]
  from t have a: "dom (FormState ?c1) = {''nickname'', ''issueType'', ''subject'', ''message''}"
    by (simp add: FormState_mount k)
  from t have b: "FormState ?c1 ''nickname'' = Some ''B''"
    by simp
  from t have "FormState ?c1 ''subject'' = FormState mount ''subject''"
    by simp
  then have c: "FormState ?c1 ''subject'' = Some ''''"
    by (simp add: FormState_mount initialState_literal_def)
  from t h' have d: "FormState ?c1 \<noteq> FormState mount"
    by blast
  from h have h0: "''nickname'' \<notin> dom (InitialState mount)"
    by simp
  have g: "target_id ?bo \<notin> dom (InitialState ?c1)"
    by (simp add: InitialState_dispatch k)
  note u = handleChange_unknown_key [OF g]
  from u have a2: "dom (FormState (dispatch (Change ?bo) ?c1)) =
      {''nickname'', ''issueType'', ''subject'', ''message''}"
    by (simp add: a)
  from u have b2: "FormState (dispatch (Change ?bo) ?c1) ''nickname'' = Some ''Bo''"
    by simp
  from u have "FormState (dispatch (Change ?bo) ?c1) ''subject'' = FormState ?c1 ''subject''"
    by simp
  with c have c2: "FormState (dispatch (Change ?bo) ?c1) ''subject'' = Some ''''"
    by simp
  from g have g0: "''nickname'' \<notin> dom (InitialState ?c1)"
    by simp
  show ?thesis
    using h0 a b c d g0 a2 b2 c2 by blast
qed

text \<open>
  Claim C8 as worded does not hold: without that last condition the event need not add a
  key, may change an entry that
  existed, and may leave the FormState as it was. After \<open>B\<close> was typed into a field with the
  \<open>id\<close> \<open>nickname\<close>, typing \<open>Bo\<close> adds no key and replaces the entry; the same event once
  more changes nothing.
\<close>

theorem handleChange_unknown_key_counterexample:
  "''nickname'' \<notin> dom (InitialState
       (dispatch (Change \<lparr>target_id = ''nickname'', target_value = ''B''\<rparr>) mount)) \<and>
   FormState (dispatch (Change \<lparr>target_id = ''nickname'', target_value = ''B''\<rparr>) mount)
     ''nickname'' = Some ''B'' \<and>
   FormState (dispatch (Change \<lparr>target_id = ''nickname'', target_value = ''Bo''\<rparr>)
       (dispatch (Change \<lparr>target_id = ''nickname'', target_value = ''B''\<rparr>) mount))
     ''nickname'' = Some ''Bo'' \<and>
   FormState (dispatch (Change \<lparr>target_id = ''nickname'', target_value = ''Bo''\<rparr>)
       (dispatch (Change \<lparr>target_id = ''nickname'', target_value = ''B''\<rparr>) mount))
     ''nickname'' \<noteq>
   FormState (dispatch (Change \<lparr>target_id = ''nickname'', target_value = ''B''\<rparr>) mount)
     ''nickname'' \<and>
   dom (FormState (dispatch (Change \<lparr>target_id = ''nickname'', target_value = ''Bo''\<rparr>)
       (dispatch (Change \<lparr>target_id = ''nickname'', target_value = ''B''\<rparr>) mount))) =
   dom (FormState (dispatch (Change \<lparr>target_id = ''nickname'', target_value = ''B''\<rparr>) mount)) \<and>
   FormState (dispatch (Change \<lparr>target_id = ''nickname'', target_value = ''B''\<rparr>)
       (dispatch (Change \<lparr>target_id = ''nickname'', target_value = ''B''\<rparr>) mount)) =
   FormState (dispatch (Change \<lparr>target_id = ''nickname'', target_value = ''B''\<rparr>) mount)"
proof -
  let ?b = "\<lparr>target_id = ''nickname'', target_value = ''B''\<rparr>"
  let ?bo = "\<lparr>target_id = ''nickname'', target_value = ''Bo''\<rparr>"
  let ?c1 = "dispatch (Change ?b) mount"
  have k: "''nickname'' \<notin> dom (InitialState ?c1)"
    by (simp add: InitialState_dispatch initialState_literal_def)
  have a: "FormState ?c1 ''nickname'' = Some ''B''"
    by (simp add: FormState_Change)
  have b: "FormState (dispatch (Change ?bo) ?c1) ''nickname'' = Some ''Bo''"
    by (simp add: FormState_Change)
  from a b have c: "FormState (dispatch (Change ?bo) ?c1) ''nickname'' \<noteq>
      FormState ?c1 ''nickname''"
    by simp
  have d: "dom (FormState (dispatch (Change ?bo) ?c1)) = dom (FormState ?c1)"
    by (simp add: FormState_Change)
  have f: "FormState (dispatch (Change ?b) ?c1) = FormState ?c1"
    by (simp add: FormState_Change)
  show ?thesis
    using k a b c d f by blast
qed

text \<open>
  Claim C9. Change events on two different fields commute: handled in either order, they
  lead to the same FormState.
\<close>

theorem handleChange_commutes:
  assumes "target_id e1 \<noteq> target_id e2"
  shows "FormState (dispatch (Change e2) (dispatch (Change e1) c)) =
         FormState (dispatch (Change e1) (dispatch (Change e2) c))"
  using assms by (simp add: FormState_Change fun_upd_twist)

theorem handleChange_commutes_witness:
  "''issueType'' \<noteq> ''subject'' \<and>
   FormState (dispatch (Change \<lparr>target_id = ''subject'', target_value = ''Invoice error''\<rparr>)
     (dispatch (Change \<lparr>target_id = ''issueType'', target_value = ''billing''\<rparr>) mount)) =
   FormState (dispatch (Change \<lparr>target_id = ''issueType'', target_value = ''billing''\<rparr>)
     (dispatch (Change \<lparr>target_id = ''subject'', target_value = ''Invoice error''\<rparr>) mount)) \<and>
   FormState (dispatch (Change \<lparr>target_id = ''issueType'', target_value = ''billing''\<rparr>)
     (dispatch (Change \<lparr>target_id = ''subject'', target_value = ''Invoice error''\<rparr>) mount))
     ''issueType'' = Some ''billing''"
proof -
  let ?e1 = "\<lparr>target_id = ''issueType'', target_value = ''billing''\<rparr>"
  let ?e2 = "\<lparr>target_id = ''subject'', target_value = ''Invoice error''\<rparr>"
  have h: "target_id ?e1 \<noteq> target_id ?e2"
    by simp
  have a: "FormState (dispatch (Change ?e1) (dispatch (Change ?e2) mount)) ''issueType'' =
      Some ''billing''"
    by (simp add: FormState_Change)
  from h have h0: "''issueType'' \<noteq> ''subject''"
    by simp
  show ?thesis
    using h0 handleChange_commutes [OF h, of mount] a by blast
qed

text \<open>
  Claim C10. The handlers are deterministic in the FormState: from two components that
  may differ in everything else (references, other objects, earlier calls) and whose
  FormStates are equal, change events with equal \<open>e.target.id\<close> and \<open>e.target.value\<close>
  lead to equal FormStates, and submissions hand equal values to the sink and lead to equal
  FormStates.
\<close>

theorem handlers_deterministic:
  assumes "FormState (App w1) = FormState (App w2)"
    and "target_id e1 = target_id e2"
    and "target_value e1 = target_value e2"
  shows "FormState (dispatch (Change e1) (App w1)) = FormState (dispatch (Change e2) (App w2)) \<and>
         logged (effects_between (App w1) (dispatch (Submit s1) (App w1))) =
           logged (effects_between (App w2) (dispatch (Submit s2) (App w2))) \<and>
         FormState (dispatch (Submit s1) (App w1)) = FormState (dispatch (Submit s2) (App w2))"
  using assms by (simp add: FormState_Change effects_Submit logged_def FormState_Submit)

theorem handlers_deterministic_witness:
  "FormState mount =
     FormState (dispatch (Submit \<lparr>target_id = '''', target_value = ''''\<rparr>)
       (dispatch (Change \<lparr>target_id = ''subject'', target_value = ''Hi''\<rparr>) mount)) \<and>
   trace (snd mount) \<noteq>
     trace (snd (dispatch (Submit \<lparr>target_id = '''', target_value = ''''\<rparr>)
       (dispatch (Change \<lparr>target_id = ''subject'', target_value = ''Hi''\<rparr>) mount))) \<and>
   FormState (dispatch (Change \<lparr>target_id = ''message'', target_value = ''Hello''\<rparr>) mount) =
     FormState (dispatch (Change \<lparr>target_id = ''message'', target_value = ''Hello''\<rparr>)
       (dispatch (Submit \<lparr>target_id = '''', target_value = ''''\<rparr>)
         (dispatch (Change \<lparr>target_id = ''subject'', target_value = ''Hi''\<rparr>) mount))) \<and>
   logged (effects_between mount
       (dispatch (Submit \<lparr>target_id = '''', target_value = ''''\<rparr>) mount)) =
     logged (effects_between
       (dispatch (Submit \<lparr>target_id = '''', target_value = ''''\<rparr>)
         (dispatch (Change \<lparr>target_id = ''subject'', target_value = ''Hi''\<rparr>) mount))
       (dispatch (Submit \<lparr>target_id = '''', target_value = ''''\<rparr>)
         (dispatch (Submit \<lparr>target_id = '''', target_value = ''''\<rparr>)
           (dispatch (Change \<lparr>target_id = ''subject'', target_value = ''Hi''\<rparr>) mount)))) \<and>
   FormState (dispatch (Submit \<lparr>target_id = '''', target_value = ''''\<rparr>) mount) =
     FormState (dispatch (Submit \<lparr>target_id = '''', target_value = ''''\<rparr>)
       (dispatch (Submit \<lparr>target_id = '''', target_value = ''''\<rparr>)
         (dispatch (Change \<lparr>target_id = ''subject'', target_value = ''Hi''\<rparr>) mount)))"
proof -
  let ?s = "\<lparr>target_id = '''', target_value = ''''\<rparr>"
  let ?e = "\<lparr>target_id = ''message'', target_value = ''Hello''\<rparr>"
  let ?c1 = "dispatch (Change \<lparr>target_id = ''subject'', target_value = ''Hi''\<rparr>)
      (App empty_world)"
  let ?w2 = "handler (fst ?c1) (Submit ?s) (snd ?c1)"
  have c2: "App ?w2 = dispatch (Submit ?s) ?c1"
    by (simp add: dispatch_def)
  have c1: "?c1 = App (handler (fst (App empty_world))
      (Change \<lparr>target_id = ''subject'', target_value = ''Hi''\<rparr>) (snd (App empty_world)))"
    by (simp add: dispatch_def)
  have "FormState (dispatch (Submit ?s) ?c1) = initialState_literal"
    unfolding c1 by (rule FormState_Submit)
  then have h: "FormState (App empty_world) = FormState (App ?w2)"
    unfolding c2 by (simp add: FormState_mount [unfolded mount_def])
  have tr: "trace (snd (App empty_world)) \<noteq> trace (snd (dispatch (Submit ?s) ?c1))"
    by (simp add: trace_Submit trace_App empty_world_def)
  note t = handlers_deterministic [OF h refl refl, of ?e ?s ?s]
  show ?thesis
    unfolding mount_def using h tr t unfolding c2 by blast
qed

end
